theory Spec2Isabelle
  imports Complex_Main
begin

section \<open>Markup: the element trees the components return\<close>

text \<open>
  A JSX expression evaluates to a tree of elements. A prop value is a string literal
  (\<open>className="title"\<close>), a bare boolean attribute (\<open>muted\<close>) or a ref object
  (\<open>ref={videoRef}\<close>). A child is a host element, a text node, a reference to another
  component (\<open><Navbar/>\<close>) or a fragment (\<open><> ... </>\<close>). JSX comments
  \<open>{/* ... */}\<close> and whitespace-only lines produce no child.
\<close>

datatype prop_val = S string | B bool | R string

datatype node =
    Element string "(string \<times> prop_val) list" "node list"
  | Text string
  | Component string
  | Fragment "node list"

text \<open>Document order: a node, then the nodes below it, left to right.\<close>

fun descendants :: "node \<Rightarrow> node list" where
  "descendants (Element t ps cs) = Element t ps cs # concat (map descendants cs)"
| "descendants (Text s) = [Text s]"
| "descendants (Component c) = [Component c]"
| "descendants (Fragment cs) = Fragment cs # concat (map descendants cs)"

fun is_tag :: "string \<Rightarrow> node \<Rightarrow> bool" where
  "is_tag t (Element t' ps cs) = (t' = t)"
| "is_tag t n = False"

definition elements_by_tag :: "string \<Rightarrow> node \<Rightarrow> node list" where
  "elements_by_tag t doc = filter (is_tag t) (descendants doc)"

fun component_name :: "node \<Rightarrow> string option" where
  "component_name (Component c) = Some c"
| "component_name n = None"

definition components :: "node \<Rightarrow> string list" where
  "components doc = List.map_filter component_name (descendants doc)"

fun text_of :: "node \<Rightarrow> string option" where
  "text_of (Text s) = Some s"
| "text_of n = None"


fun children :: "node \<Rightarrow> node list" where
  "children (Element t ps cs) = cs"
| "children (Fragment cs) = cs"
| "children n = []"

subsection \<open>Simple selectors\<close>

text \<open>
  The animation library resolves a selector string against the document. The three
  forms the components use are a class (\<open>.title\<close>), an id (\<open>#hero\<close>) and a tag name
  (\<open>video\<close>, \<open>nav\<close>). A class selector matches an element whose \<open>className\<close> has the
  class among its space-separated tokens.
\<close>

fun split_spaces :: "string \<Rightarrow> string \<Rightarrow> string list" where
  "split_spaces cur [] = (if cur = [] then [] else [cur])"
| "split_spaces cur (c # cs) =
     (if c = CHR '' ''
      then (if cur = [] then split_spaces [] cs else cur # split_spaces [] cs)
      else split_spaces (cur @ [c]) cs)"

fun props_of :: "node \<Rightarrow> (string \<times> prop_val) list" where
  "props_of (Element t ps cs) = ps"
| "props_of n = []"

definition has_class :: "string \<Rightarrow> node \<Rightarrow> bool" where
  "has_class c n =
     (case map_of (props_of n) ''className'' of
        Some (S v) \<Rightarrow> c \<in> set (split_spaces [] v)
      | _ \<Rightarrow> False)"

definition has_id :: "string \<Rightarrow> node \<Rightarrow> bool" where
  "has_id i n = (map_of (props_of n) ''id'' = Some (S i))"

fun matches :: "string \<Rightarrow> node \<Rightarrow> bool" where
  "matches [] n = False"
| "matches (c # cs) n =
     (if c = CHR ''.'' then has_class cs n
      else if c = CHR ''#'' then has_id cs n
      else is_tag (c # cs) n)"

definition querySelectorAll :: "string \<Rightarrow> node \<Rightarrow> node list" where
  "querySelectorAll sel doc = filter (matches sel) (descendants doc)"

section \<open>App.jsx\<close>

text \<open>
  \<open>const App = () => ( <main> <Navbar/> <Hero/> ... </main> )\<close>. React calls a
  component with its props; the arrow function takes no parameter and so ignores them.
\<close>

type_synonym props = "(string \<times> prop_val) list"

definition App :: "props \<Rightarrow> node" where
  "App p =
     Element ''main'' []
       [Component ''Navbar'',
        Component ''Hero'',
        Component ''Cocktails'',
        Component ''About'',
        Component ''Art'',
        Component ''Menu'',
        Component ''Contact'',
        Element ''div'' [(''className'', S ''h-dvh bg-black '')] []]"

section \<open>Navbar.jsx: render\<close>

text \<open>
  \<open>navLinks\<close> is imported from \<open>constants/index.js\<close>; the render reads it as a list of
  objects with an \<open>id\<close> and a \<open>title\<close>. The list is a parameter here. An entry is an
  extensible record, so that an entry may carry any further fields.
\<close>

record nav_link =
  id_link :: string
  title :: string

text \<open>
  \<open>Array.prototype.map\<close> hands each element to the callback by reference, so a callback
  could change the object it is given. The model threads every element through the
  callback and returns the elements as they are afterwards.
\<close>

fun array_map :: "('a \<Rightarrow> 'b \<times> 'a) \<Rightarrow> 'a list \<Rightarrow> 'b list \<times> 'a list" where
  "array_map f [] = ([], [])"
| "array_map f (x # xs) =
     (let (y, x') = f x;
          (ys, xs') = array_map f xs
      in (y # ys, x' # xs'))"

text \<open>The callback \<open>(link) => <li key={link.id}><a href={`#${link.id}`}>{link.title}</a></li>\<close>.\<close>

definition link_item :: "'a nav_link_scheme \<Rightarrow> node \<times> 'a nav_link_scheme" where
  "link_item link =
     (Element ''li'' [(''key'', S (id_link link))]
        [Element ''a'' [(''href'', S (''#'' @ id_link link))] [Text (title link)]],
      link)"

definition Navbar_render :: "'a nav_link_scheme list \<Rightarrow> node \<times> 'a nav_link_scheme list" where
  "Navbar_render navLinks =
     (let (items, navLinks') = array_map link_item navLinks
      in (Element ''nav'' []
            [Element ''div'' []
               [Element ''a'' [(''href'', S ''#home''), (''className'', S ''flex items-center gap-2'')]
                  [Element ''img'' [(''src'', S ''/images/logo.png''), (''alt'', S ''logo'')] [],
                   Element ''p'' [] [Text ''Velvet Pour'']],
                Element ''ul'' [] items]],
          navLinks'))"

definition Navbar :: "'a nav_link_scheme list \<Rightarrow> node" where
  "Navbar navLinks = fst (Navbar_render navLinks)"

section \<open>Hero.jsx: render\<close>

text \<open>
  The component function reads \<open>isMobile\<close> from the media-query hook and then returns
  its markup. The dash in the description paragraph is the three UTF-8 bytes of the
  source file.
\<close>

definition description :: string where
  "description =
     ''Every cocktail on our menu is a blend of premium ingredients, ''
     @ ''creative flair, and timeless recipes ''
     @ [CHR 0xE2, CHR 0x80, CHR 0x94]
     @ '' designed to delight your senses.''"

definition Hero_render :: "bool \<Rightarrow> node" where
  "Hero_render isMobile =
     Fragment
       [Element ''section'' [(''id'', S ''hero''), (''className'', S ''noisy'')]
          [Element ''h1'' [(''className'', S ''title'')] [Text ''MOJITO''],
           Element ''img''
             [(''src'', S ''/images/hero-left-leaf.png''), (''alt'', S ''left-leaf''),
              (''className'', S ''left-leaf'')] [],
           Element ''img''
             [(''src'', S ''/images/hero-right-leaf.png''), (''alt'', S ''right-leaf''),
              (''className'', S ''right-leaf'')] [],
           Element ''div'' [(''className'', S ''body'')]
             [Element ''div'' [(''className'', S ''content'')]
                [Element ''div'' [(''className'', S ''space-y-5 hidden md:block'')]
                   [Element ''p'' [] [Text ''Cool. Crisp. Classic.''],
                    Element ''p'' [(''className'', S ''subtitle'')]
                      [Text ''Sip the Spirit '', Element ''br'' [] [], Text '' of Summer'']],
                 Element ''div'' [(''className'', S ''view-cocktails'')]
                   [Element ''p'' [(''className'', S ''subtitle'')]
                      [Text description],
                    Element ''a'' [(''href'', S ''#cocktails'')] [Text ''View cocktails'']]]]],
        Element ''div'' [(''className'', S ''video absolute inset-0'')]
          [Element ''video''
             [(''ref'', R ''videoRef''), (''muted'', B True), (''playsInline'', B True),
              (''preload'', S ''auto''), (''src'', S ''/videos/output.mp4'')] []]]"

section \<open>The animation library as state\<close>

text \<open>
  The setup callbacks do nothing but call the animation library and assign one event
  handler. The model records every call, in order, with the configuration object it is
  given. A configuration object is a list of key/value pairs in source order.
\<close>

datatype jsval = Num real | Str string | Bool bool | Obj "(string \<times> jsval) list"

type_synonym vars = "(string \<times> jsval) list"

datatype error = TypeError

record split_text =
  st_target :: string
  st_vars :: vars

text \<open>
  What a tween animates: the elements a selector string matches, the \<open>chars\<close> or
  \<open>lines\<close> array of the n-th \<open>SplitText\<close> instance, or the video element itself.
\<close>

datatype target = Selector string | Chars nat | Lines nat | VideoElement

datatype tween_kind = From | To | FromTo vars

record tween =
  tw_kind :: tween_kind
  tw_target :: target
  tw_vars :: vars
  tw_position :: "jsval option"

record timeline =
  tl_vars :: vars
  tl_tweens :: "tween list"

text \<open>
  The one closure the code installs as an event handler; it captures the timeline
  \<open>tl\<close>, kept here as its index in \<open>timelines\<close>.
\<close>

datatype handler = AttachCurrentTime nat

record video_element =
  duration :: real
  onloadedmetadata :: "handler option"

text \<open>
  \<open>video_el\<close> is the \<open>video\<close> element of the committed markup; \<open>videoRef_set\<close> says
  whether \<open>videoRef.current\<close> is that element (otherwise it is still \<open>undefined\<close>).
  An event is the video's \<open>loadedmetadata\<close> or any other event, by name.
\<close>

datatype event = LoadedMetadata | OtherEvent string

text \<open>
  \<open>callbacks\<close> holds every other callback registered with the platform
  (\<open>addEventListener\<close>, a timer, a promise), each under the event that fires it.
\<close>

record world =
  splits :: "split_text list"
  class_adds :: "(target \<times> string) list"
  tweens :: "tween list"
  timelines :: "timeline list"
  video_el :: video_element
  videoRef_set :: bool
  callbacks :: "(event \<times> handler) list"

definition new_SplitText :: "string \<Rightarrow> vars \<Rightarrow> world \<Rightarrow> nat \<times> world" where
  "new_SplitText sel vs w =
     (length (splits w), w\<lparr>splits := splits w @ [\<lparr>st_target = sel, st_vars = vs\<rparr>]\<rparr>)"

definition forEach_classList_add :: "target \<Rightarrow> string \<Rightarrow> world \<Rightarrow> world" where
  "forEach_classList_add tg c w = w\<lparr>class_adds := class_adds w @ [(tg, c)]\<rparr>"

definition gsap_from :: "target \<Rightarrow> vars \<Rightarrow> world \<Rightarrow> world" where
  "gsap_from tg vs w =
     w\<lparr>tweens := tweens w @
        [\<lparr>tw_kind = From, tw_target = tg, tw_vars = vs, tw_position = None\<rparr>]\<rparr>"

definition gsap_timeline :: "vars \<Rightarrow> world \<Rightarrow> nat \<times> world" where
  "gsap_timeline vs w =
     (length (timelines w), w\<lparr>timelines := timelines w @ [\<lparr>tl_vars = vs, tl_tweens = []\<rparr>]\<rparr>)"

definition timeline_add :: "nat \<Rightarrow> tween \<Rightarrow> world \<Rightarrow> world" where
  "timeline_add t tw w =
     (if t < length (timelines w)
      then w\<lparr>timelines :=
             (timelines w)[t := (timelines w ! t)\<lparr>tl_tweens := tl_tweens (timelines w ! t) @ [tw]\<rparr>]\<rparr>
      else w)"

definition timeline_to :: "nat \<Rightarrow> target \<Rightarrow> vars \<Rightarrow> jsval option \<Rightarrow> world \<Rightarrow> world" where
  "timeline_to t tg vs pos w =
     timeline_add t \<lparr>tw_kind = To, tw_target = tg, tw_vars = vs, tw_position = pos\<rparr> w"

definition timeline_fromTo :: "nat \<Rightarrow> target \<Rightarrow> vars \<Rightarrow> vars \<Rightarrow> world \<Rightarrow> world" where
  "timeline_fromTo t tg fromVars toVars w =
     timeline_add t
       \<lparr>tw_kind = FromTo fromVars, tw_target = tg, tw_vars = toVars, tw_position = None\<rparr> w"

section \<open>Navbar.jsx: animation setup\<close>

definition Navbar_setup :: "world \<Rightarrow> error option \<times> world" where
  "Navbar_setup w0 =
     (let (navTween, w1) =
            gsap_timeline
              [(''scrollTrigger'',
                Obj [(''trigger'', Str ''nav''), (''start'', Str ''bottom top'')])] w0;
          w2 = timeline_fromTo navTween (Selector ''nav'')
                 [(''backgroundColor'', Str ''transparent'')]
                 [(''backgroundColor'', Str ''#00000050''),
                  (''backgroundFilter'', Str ''blur(10px)''),
                  (''duration'', Num 1),
                  (''ease'', Str ''power1.inOut'')] w1
      in (None, w2))"

section \<open>Hero.jsx: animation setup\<close>

text \<open>
  The callback handed to \<open>useGSAP\<close>, statement by statement. The last statement
  assigns to \<open>videoRef.current.onloadedmetadata\<close>; with \<open>videoRef.current\<close> undefined the
  assignment throws a TypeError, after every call before it has been made.
\<close>

definition Hero_setup :: "bool \<Rightarrow> world \<Rightarrow> error option \<times> world" where
  "Hero_setup isMobile w0 =
     (let (heroSplit, w1) = new_SplitText ''.title'' [(''type'', Str ''chars, words'')] w0;
          (paragraphSplit, w2) = new_SplitText ''.subtitle'' [(''type'', Str ''lines'')] w1;
          w3 = forEach_classList_add (Chars heroSplit) ''text-gradient'' w2;
          w4 = gsap_from (Chars heroSplit)
                 [(''yPercent'', Num 100), (''duration'', Num 1.8),
                  (''ease'', Str ''expo.out''), (''stagger'', Num 0.06)] w3;
          w5 = gsap_from (Lines paragraphSplit)
                 [(''opacity'', Num 0), (''yPercent'', Num 100), (''duration'', Num 1.8),
                  (''ease'', Str ''expo.out''), (''stagger'', Num 0.06),
                  (''delay'', Num 1)] w4;
          (parallax, w6) =
            gsap_timeline
              [(''scrollTrigger'',
                Obj [(''trigger'', Str ''#hero''), (''start'', Str ''top top''),
                     (''end'', Str ''bottom top''), (''scrub'', Bool True)])] w5;
          w7 = timeline_to parallax (Selector ''.right-leaf'') [(''y'', Num 200)] (Some (Num 0)) w6;
          w8 = timeline_to parallax (Selector ''.left-leaf'') [(''y'', Num (- 200))] (Some (Num 0)) w7;
          w9 = timeline_to parallax (Selector ''.arrow'') [(''y'', Num 100)] (Some (Num 0)) w8;
          startValue = (if isMobile then ''top 50%'' else ''center 60%'');
          endValue = (if isMobile then ''120% top'' else ''bottom top'');
          (tl, w10) =
            gsap_timeline
              [(''scrollTrigger'',
                Obj [(''trigger'', Str ''video''), (''start'', Str startValue),
                     (''end'', Str endValue), (''scrub'', Bool True),
                     (''pin'', Bool True)])] w9
      in if videoRef_set w10
         then (None,
               w10\<lparr>video_el := (video_el w10)\<lparr>onloadedmetadata := Some (AttachCurrentTime tl)\<rparr>\<rparr>)
         else (Some TypeError, w10))"

section \<open>The sections after Hero\<close>

text \<open>
  The calls a setup can make that only hand a configuration to the library: a text
  split, a class added to split elements, a tween, a timeline with its tweens.
\<close>

datatype library_call =
    NewSplitText string vars
  | ClassListAdd target string
  | GsapFrom target vars
  | GsapTimeline vars "tween list"

fun library_step :: "library_call \<Rightarrow> world \<Rightarrow> world" where
  "library_step (NewSplitText sel vs) w = snd (new_SplitText sel vs w)"
| "library_step (ClassListAdd tg c) w = forEach_classList_add tg c w"
| "library_step (GsapFrom tg vs) w = gsap_from tg vs w"
| "library_step (GsapTimeline vs tws) w =
     w\<lparr>timelines := timelines w @ [\<lparr>tl_vars = vs, tl_tweens = tws\<rparr>]\<rparr>"

text \<open>
  Modelled from the spec: \<open>Cocktails.jsx\<close>, \<open>About.jsx\<close>, \<open>Art.jsx\<close>, \<open>Menu.jsx\<close> and
  \<open>Contact.jsx\<close> are imported by \<open>App.jsx\<close> and are not among the source files. The
  spec calls them presentation containers, says that each animation setup amounts to
  supplying parameters to a library call, and that waiting for the video's metadata is
  the only asynchronous behaviour. So the setup of such a section is a list of library
  calls, whatever they are, made one after the other; it assigns no handler and
  registers no callback.
\<close>

definition section_setup :: "library_call list \<Rightarrow> world \<Rightarrow> error option \<times> world" where
  "section_setup calls w = (None, fold library_step calls w)"

text \<open>
  Mounting the page runs the setups in the order \<open>App\<close> lists the components: Navbar,
  Hero, then the sections after them, each with the library calls \<open>calls_of\<close> gives for
  it. An error in one setup does not keep the later ones from running; the first error
  is the outcome of the mount.
\<close>

definition mount_App ::
  "bool \<Rightarrow> (string \<Rightarrow> library_call list) \<Rightarrow> world \<Rightarrow> error option \<times> world" where
  "mount_App isMobile calls_of w0 =
     (let (e1, w1) = Navbar_setup w0;
          (e2, w2) = Hero_setup isMobile w1;
          w3 = fold (\<lambda>c w. snd (section_setup (calls_of c) w))
                 (drop 2 (components (App []))) w2
      in (case e1 of Some err \<Rightarrow> Some err | None \<Rightarrow> e2, w3))"

section \<open>Navbar.jsx: render of a list that nothing has checked\<close>






section \<open>Events\<close>

text \<open>
  The handler body: \<open>tl.to(videoRef.current, { currentTime: videoRef.current.duration })\<close>.
  It reads the ref when it runs.
\<close>

fun run_handler :: "handler \<Rightarrow> world \<Rightarrow> error option \<times> world" where
  "run_handler (AttachCurrentTime t) w =
     (if videoRef_set w
      then (None, timeline_to t VideoElement [(''currentTime'', Num (duration (video_el w)))] None w)
      else (Some TypeError, w))"

text \<open>
  An event runs the handlers registered for it: for \<open>loadedmetadata\<close> first the
  \<open>onloadedmetadata\<close> property of the video element, if assigned, and for every event
  the callbacks registered under it, in order. A handler that throws does not stop the
  ones after it; the first error is the one reported.
\<close>

definition registered :: "event \<Rightarrow> world \<Rightarrow> handler list" where
  "registered e w = map snd (filter (\<lambda>(k, h). k = e) (callbacks w))"

fun run_callbacks :: "handler list \<Rightarrow> error option \<times> world \<Rightarrow> error option \<times> world" where
  "run_callbacks [] r = r"
| "run_callbacks (h # hs) (e, w) =
     (let (e', w') = run_handler h w
      in run_callbacks hs (case e of None \<Rightarrow> e' | Some x \<Rightarrow> Some x, w'))"

fun dispatch :: "event \<Rightarrow> world \<Rightarrow> error option \<times> world" where
  "dispatch LoadedMetadata w =
     run_callbacks (registered LoadedMetadata w)
       (case onloadedmetadata (video_el w) of
          None \<Rightarrow> (None, w)
        | Some h \<Rightarrow> run_handler h w)"
| "dispatch (OtherEvent name) w = run_callbacks (registered (OtherEvent name) w) (None, w)"

fun run_events :: "event list \<Rightarrow> world \<Rightarrow> world" where
  "run_events [] w = w"
| "run_events (e # es) w = run_events es (snd (dispatch e w))"

section \<open>Observations used in the statements\<close>

text \<open>
  The document right after the first commit: no library call made yet, no handler
  assigned, no callback registered.
\<close>

definition mounted_world :: "real \<Rightarrow> world" where
  "mounted_world d =
     \<lparr>splits = [], class_adds = [], tweens = [], timelines = [],
      video_el = \<lparr>duration = d, onloadedmetadata = None\<rparr>, videoRef_set = True,
      callbacks = []\<rparr>"

text \<open>A timeline is scroll-scrubbed when its configuration has \<open>scrollTrigger.scrub = true\<close>.\<close>

definition scroll_scrubbed :: "timeline \<Rightarrow> bool" where
  "scroll_scrubbed t =
     (case map_of (tl_vars t) ''scrollTrigger'' of
        Some (Obj st) \<Rightarrow> map_of st ''scrub'' = Some (Bool True)
      | _ \<Rightarrow> False)"

text \<open>The elements of a document that the recorded \<open>SplitText\<close> instances split.\<close>

definition split_elements :: "node \<Rightarrow> split_text list \<Rightarrow> node list" where
  "split_elements doc ss = concat (map (\<lambda>s. querySelectorAll (st_target s) doc) ss)"

text \<open>Overwriting the \<open>start\<close> and \<open>end\<close> of a timeline's scroll trigger.\<close>

fun obj_set :: "string \<Rightarrow> jsval \<Rightarrow> vars \<Rightarrow> vars" where
  "obj_set k v [] = [(k, v)]"
| "obj_set k v ((k', v') # kvs) =
     (if k' = k then (k, v) # kvs else (k', v') # obj_set k v kvs)"

definition set_range :: "string \<Rightarrow> string \<Rightarrow> timeline \<Rightarrow> timeline" where
  "set_range s e t =
     (case map_of (tl_vars t) ''scrollTrigger'' of
        Some (Obj st) \<Rightarrow>
          t\<lparr>tl_vars :=
              obj_set ''scrollTrigger''
                (Obj (obj_set ''end'' (Str e) (obj_set ''start'' (Str s) st))) (tl_vars t)\<rparr>
      | _ \<Rightarrow> t)"

text \<open>The selector a timeline's scroll trigger watches.\<close>

definition trigger_of :: "timeline \<Rightarrow> jsval option" where
  "trigger_of t =
     (case map_of (tl_vars t) ''scrollTrigger'' of
        Some (Obj st) \<Rightarrow> map_of st ''trigger''
      | _ \<Rightarrow> None)"

text \<open>Every tween of a state, and whether a tween animates \<open>currentTime\<close>.\<close>

definition all_tweens :: "world \<Rightarrow> tween list" where
  "all_tweens w = tweens w @ concat (map tl_tweens (timelines w))"

definition drives_currentTime :: "tween \<Rightarrow> bool" where
  "drives_currentTime t = (map_of (tw_vars t) ''currentTime'' \<noteq> None)"

text \<open>The tween the metadata handler adds, for a video of duration \<open>d\<close>.\<close>

definition currentTime_tween :: "real \<Rightarrow> tween" where
  "currentTime_tween d =
     \<lparr>tw_kind = To, tw_target = VideoElement, tw_vars = [(''currentTime'', Num d)],
      tw_position = None\<rparr>"

section \<open>What each library call changes\<close>

lemma new_SplitText_simps:
  "fst (new_SplitText sel vs w) = length (splits w)"
  "splits (snd (new_SplitText sel vs w)) = splits w @ [\<lparr>st_target = sel, st_vars = vs\<rparr>]"
  "class_adds (snd (new_SplitText sel vs w)) = class_adds w"
  "tweens (snd (new_SplitText sel vs w)) = tweens w"
  "timelines (snd (new_SplitText sel vs w)) = timelines w"
  "video_el (snd (new_SplitText sel vs w)) = video_el w"
  "videoRef_set (snd (new_SplitText sel vs w)) = videoRef_set w"
  "callbacks (snd (new_SplitText sel vs w)) = callbacks w"
  by (simp_all add: new_SplitText_def)

lemma forEach_classList_add_simps:
  "splits (forEach_classList_add tg c w) = splits w"
  "class_adds (forEach_classList_add tg c w) = class_adds w @ [(tg, c)]"
  "tweens (forEach_classList_add tg c w) = tweens w"
  "timelines (forEach_classList_add tg c w) = timelines w"
  "video_el (forEach_classList_add tg c w) = video_el w"
  "videoRef_set (forEach_classList_add tg c w) = videoRef_set w"
  "callbacks (forEach_classList_add tg c w) = callbacks w"
  by (simp_all add: forEach_classList_add_def)

lemma gsap_from_simps:
  "splits (gsap_from tg vs w) = splits w"
  "class_adds (gsap_from tg vs w) = class_adds w"
  "tweens (gsap_from tg vs w) = tweens w @
     [\<lparr>tw_kind = From, tw_target = tg, tw_vars = vs, tw_position = None\<rparr>]"
  "timelines (gsap_from tg vs w) = timelines w"
  "video_el (gsap_from tg vs w) = video_el w"
  "videoRef_set (gsap_from tg vs w) = videoRef_set w"
  "callbacks (gsap_from tg vs w) = callbacks w"
  by (simp_all add: gsap_from_def)

lemma gsap_timeline_simps:
  "fst (gsap_timeline vs w) = length (timelines w)"
  "splits (snd (gsap_timeline vs w)) = splits w"
  "class_adds (snd (gsap_timeline vs w)) = class_adds w"
  "tweens (snd (gsap_timeline vs w)) = tweens w"
  "timelines (snd (gsap_timeline vs w)) = timelines w @ [\<lparr>tl_vars = vs, tl_tweens = []\<rparr>]"
  "video_el (snd (gsap_timeline vs w)) = video_el w"
  "videoRef_set (snd (gsap_timeline vs w)) = videoRef_set w"
  "callbacks (snd (gsap_timeline vs w)) = callbacks w"
  by (simp_all add: gsap_timeline_def)

lemma timeline_add_simps:
  "splits (timeline_add t tw w) = splits w"
  "class_adds (timeline_add t tw w) = class_adds w"
  "tweens (timeline_add t tw w) = tweens w"
  "video_el (timeline_add t tw w) = video_el w"
  "videoRef_set (timeline_add t tw w) = videoRef_set w"
  "callbacks (timeline_add t tw w) = callbacks w"
  by (simp_all add: timeline_add_def)

lemma timeline_add_timelines:
  "timelines (timeline_add t tw w) =
     (let ts = timelines w
      in if t < length ts then ts[t := (ts ! t)\<lparr>tl_tweens := tl_tweens (ts ! t) @ [tw]\<rparr>] else ts)"
  by (simp add: timeline_add_def Let_def)

lemmas lib_simps = new_SplitText_simps forEach_classList_add_simps gsap_from_simps
  gsap_timeline_simps timeline_add_simps timeline_add_timelines timeline_to_def
  timeline_fromTo_def

section \<open>The state the Hero setup leaves behind\<close>

lemma Hero_setup_outcome:
  "fst (Hero_setup m w) = (if videoRef_set w then None else Some TypeError)"
  by (simp add: Hero_setup_def lib_simps Let_def split_beta)

lemma Hero_setup_splits:
  "splits (snd (Hero_setup m w)) = splits w @
     [\<lparr>st_target = ''.title'', st_vars = [(''type'', Str ''chars, words'')]\<rparr>,
      \<lparr>st_target = ''.subtitle'', st_vars = [(''type'', Str ''lines'')]\<rparr>]"
  by (simp add: Hero_setup_def lib_simps Let_def split_beta)

lemma Hero_setup_class_adds:
  "class_adds (snd (Hero_setup m w)) =
     class_adds w @ [(Chars (length (splits w)), ''text-gradient'')]"
  by (simp add: Hero_setup_def lib_simps Let_def split_beta)

lemma Hero_setup_tweens:
  "tweens (snd (Hero_setup m w)) = tweens w @
     [\<lparr>tw_kind = From, tw_target = Chars (length (splits w)),
       tw_vars = [(''yPercent'', Num 100), (''duration'', Num 1.8),
                  (''ease'', Str ''expo.out''), (''stagger'', Num 0.06)],
       tw_position = None\<rparr>,
      \<lparr>tw_kind = From, tw_target = Lines (Suc (length (splits w))),
       tw_vars = [(''opacity'', Num 0), (''yPercent'', Num 100), (''duration'', Num 1.8),
                  (''ease'', Str ''expo.out''), (''stagger'', Num 0.06), (''delay'', Num 1)],
       tw_position = None\<rparr>]"
  by (simp add: Hero_setup_def lib_simps Let_def split_beta)

lemma Hero_setup_timelines:
  "timelines (snd (Hero_setup m w)) = timelines w @
     [\<lparr>tl_vars = [(''scrollTrigger'',
                    Obj [(''trigger'', Str ''#hero''), (''start'', Str ''top top''),
                         (''end'', Str ''bottom top''), (''scrub'', Bool True)])],
       tl_tweens =
         [\<lparr>tw_kind = To, tw_target = Selector ''.right-leaf'', tw_vars = [(''y'', Num 200)],
           tw_position = Some (Num 0)\<rparr>,
          \<lparr>tw_kind = To, tw_target = Selector ''.left-leaf'', tw_vars = [(''y'', Num (- 200))],
           tw_position = Some (Num 0)\<rparr>,
          \<lparr>tw_kind = To, tw_target = Selector ''.arrow'', tw_vars = [(''y'', Num 100)],
           tw_position = Some (Num 0)\<rparr>]\<rparr>,
      \<lparr>tl_vars = [(''scrollTrigger'',
                    Obj [(''trigger'', Str ''video''),
                         (''start'', Str (if m then ''top 50%'' else ''center 60%'')),
                         (''end'', Str (if m then ''120% top'' else ''bottom top'')),
                         (''scrub'', Bool True), (''pin'', Bool True)])],
       tl_tweens = []\<rparr>]"
  by (simp add: Hero_setup_def lib_simps Let_def split_beta)

lemma Hero_setup_video:
  "video_el (snd (Hero_setup m w)) =
     (if videoRef_set w
      then (video_el w)\<lparr>onloadedmetadata := Some (AttachCurrentTime (Suc (length (timelines w))))\<rparr>
      else video_el w)"
  by (simp add: Hero_setup_def lib_simps Let_def split_beta)

lemma Hero_setup_ref: "videoRef_set (snd (Hero_setup m w)) = videoRef_set w"
  by (simp add: Hero_setup_def lib_simps Let_def split_beta)

lemma Hero_setup_callbacks: "callbacks (snd (Hero_setup m w)) = callbacks w"
  by (simp add: Hero_setup_def lib_simps Let_def split_beta)

section \<open>Event traces\<close>

lemma run_callbacks_error: "fst (run_callbacks hs (Some x, w)) = Some x"
proof (induction hs arbitrary: w)
  case Nil
  then show ?case by simp
next
  case (Cons h hs)
  then show ?case by (cases h) (simp add: Let_def)
qed

lemma run_callbacks_ok: "videoRef_set w \<Longrightarrow> fst (run_callbacks hs (None, w)) = None"
proof (induction hs arbitrary: w)
  case Nil
  then show ?case by simp
next
  case (Cons h hs)
  then show ?case by (cases h) (simp add: Let_def lib_simps)
qed

lemma run_events_installed:
  "onloadedmetadata (video_el w) = Some (AttachCurrentTime t) \<Longrightarrow> videoRef_set w \<Longrightarrow>
   t < length (timelines w) \<Longrightarrow> callbacks w = [] \<Longrightarrow>
   run_events es w =
     w\<lparr>timelines := (timelines w)
         [t := (timelines w ! t)
            \<lparr>tl_tweens := tl_tweens (timelines w ! t) @
               replicate (count_list es LoadedMetadata)
                 (currentTime_tween (duration (video_el w)))\<rparr>]\<rparr>"
proof (induction es arbitrary: w)
  case Nil
  then show ?case by simp
next
  case (Cons e es)
  show ?case
  proof (cases e)
    case LoadedMetadata
    let ?w1 = "snd (dispatch LoadedMetadata w)"
    have w1: "?w1 = timeline_to t VideoElement
                      [(''currentTime'', Num (duration (video_el w)))] None w"
      using Cons.prems by (simp add: registered_def)
    have pre: "onloadedmetadata (video_el ?w1) = Some (AttachCurrentTime t)"
      "videoRef_set ?w1" "t < length (timelines ?w1)" "callbacks ?w1 = []"
      using Cons.prems by (simp_all add: registered_def lib_simps Let_def)
    show ?thesis
      using Cons.prems unfolding LoadedMetadata run_events.simps Cons.IH [OF pre]
      by (simp add: registered_def lib_simps Let_def timeline_add_def replicate_append_same
            currentTime_tween_def)
  next
    case (OtherEvent n)
    then show ?thesis using Cons.IH [OF Cons.prems] Cons.prems(4) by (simp add: registered_def)
  qed
qed

lemma Navbar_setup_simps:
  "fst (Navbar_setup w) = None"
  "splits (snd (Navbar_setup w)) = splits w"
  "class_adds (snd (Navbar_setup w)) = class_adds w"
  "tweens (snd (Navbar_setup w)) = tweens w"
  "video_el (snd (Navbar_setup w)) = video_el w"
  "videoRef_set (snd (Navbar_setup w)) = videoRef_set w"
  "callbacks (snd (Navbar_setup w)) = callbacks w"
  by (simp_all add: Navbar_setup_def lib_simps Let_def split_beta)

lemma Navbar_setup_timelines:
  "timelines (snd (Navbar_setup w)) = timelines w @
     [\<lparr>tl_vars = [(''scrollTrigger'',
                    Obj [(''trigger'', Str ''nav''), (''start'', Str ''bottom top'')])],
       tl_tweens =
         [\<lparr>tw_kind = FromTo [(''backgroundColor'', Str ''transparent'')],
           tw_target = Selector ''nav'',
           tw_vars = [(''backgroundColor'', Str ''#00000050''),
                      (''backgroundFilter'', Str ''blur(10px)''),
                      (''duration'', Num 1), (''ease'', Str ''power1.inOut'')],
           tw_position = None\<rparr>]\<rparr>]"
  by (simp add: Navbar_setup_def lib_simps Let_def split_beta)

section \<open>The sections after Hero leave handlers and earlier timelines alone\<close>

lemma library_step_frame:
  "video_el (library_step c w) = video_el w"
  "videoRef_set (library_step c w) = videoRef_set w"
  "callbacks (library_step c w) = callbacks w"
  by (cases c; simp add: lib_simps)+

lemma library_step_timelines: "\<exists>ys. timelines (library_step c w) = timelines w @ ys"
  by (cases c) (simp_all add: lib_simps)

lemma section_setup_frame:
  "fst (section_setup calls w) = None"
  "video_el (snd (section_setup calls w)) = video_el w"
  "videoRef_set (snd (section_setup calls w)) = videoRef_set w"
  "callbacks (snd (section_setup calls w)) = callbacks w"
  by (induction calls arbitrary: w) (simp_all add: section_setup_def library_step_frame)

lemma section_setup_timelines:
  "\<exists>ys. timelines (snd (section_setup calls w)) = timelines w @ ys"
proof (induction calls arbitrary: w)
  case Nil
  then show ?case by (simp add: section_setup_def)
next
  case (Cons c calls)
  obtain ys where a: "timelines (library_step c w) = timelines w @ ys"
    using library_step_timelines by blast
  obtain zs where b: "timelines (snd (section_setup calls (library_step c w))) =
                        timelines (library_step c w) @ zs"
    using Cons.IH by blast
  show ?case using a b by (simp add: section_setup_def)
qed

lemma sections_frame:
  "video_el (fold (\<lambda>c w. snd (section_setup (f c) w)) cs w) = video_el w"
  "videoRef_set (fold (\<lambda>c w. snd (section_setup (f c) w)) cs w) = videoRef_set w"
  "callbacks (fold (\<lambda>c w. snd (section_setup (f c) w)) cs w) = callbacks w"
  by (induction cs arbitrary: w) (simp_all add: section_setup_frame)

lemma sections_timelines:
  "\<exists>ys. timelines (fold (\<lambda>c w. snd (section_setup (f c) w)) cs w) = timelines w @ ys"
proof (induction cs arbitrary: w)
  case Nil
  then show ?case by simp
next
  case (Cons c cs)
  obtain ys where a: "timelines (snd (section_setup (f c) w)) = timelines w @ ys"
    using section_setup_timelines by blast
  obtain zs where b:
    "timelines (fold (\<lambda>c w. snd (section_setup (f c) w)) cs (snd (section_setup (f c) w))) =
       timelines (snd (section_setup (f c) w)) @ zs"
    using Cons.IH by blast
  show ?case using a b by simp
qed

lemma sections_of_App:
  "drop 2 (components (App [])) = [''Cocktails'', ''About'', ''Art'', ''Menu'', ''Contact'']"
  by (simp add: App_def components_def)

lemma mount_App_outcome:
  "fst (mount_App m f w) = (if videoRef_set w then None else Some TypeError)"
  by (simp add: mount_App_def split_beta Let_def Hero_setup_outcome Navbar_setup_simps)

lemma mount_App_state:
  "snd (mount_App m f w) =
     fold (\<lambda>c w. snd (section_setup (f c) w))
       [''Cocktails'', ''About'', ''Art'', ''Menu'', ''Contact'']
       (snd (Hero_setup m (snd (Navbar_setup w))))"
  by (simp only: mount_App_def split_beta Let_def sections_of_App snd_conv)

section \<open>Tweens that animate currentTime\<close>

lemma Hero_setup_currentTime:
  "filter drives_currentTime (all_tweens (snd (Hero_setup m w))) =
   filter drives_currentTime (all_tweens w)"
  by (simp add: all_tweens_def drives_currentTime_def Hero_setup_tweens Hero_setup_timelines)

lemma Navbar_setup_currentTime:
  "filter drives_currentTime (all_tweens (snd (Navbar_setup w))) =
   filter drives_currentTime (all_tweens w)"
  by (simp add: all_tweens_def drives_currentTime_def Navbar_setup_simps Navbar_setup_timelines)

section \<open>The unchecked render\<close>




section \<open>The list items of the navigation bar\<close>

lemma array_map_link_item: "array_map link_item ls = (map (\<lambda>l. fst (link_item l)) ls, ls)"
  by (induction ls) (simp_all add: link_item_def)

lemma filter_li_items:
  "filter (is_tag ''li'') (concat (map (\<lambda>l. descendants (fst (link_item l))) ls))
   = map (\<lambda>l. fst (link_item l)) ls"
  by (induction ls) (simp_all add: link_item_def)

lemma filter_a_items:
  "filter (is_tag ''a'') (concat (map (\<lambda>l. descendants (fst (link_item l))) ls))
   = map (\<lambda>l. hd (children (fst (link_item l)))) ls"
  by (induction ls) (simp_all add: link_item_def)

lemma filter_ul_items:
  "filter (is_tag ''ul'') (concat (map (\<lambda>l. descendants (fst (link_item l))) ls)) = []"
  by (induction ls) (simp_all add: link_item_def)

lemma texts_items:
  "List.map_filter text_of (concat (map (\<lambda>l. descendants (fst (link_item l))) ls))
   = map title ls"
  by (induction ls) (simp_all add: link_item_def List.map_filter_def)

lemma length_descendants_items:
  "length (concat (map (\<lambda>l. descendants (fst (link_item l))) ls)) = 3 * length ls"
  by (induction ls) (simp_all add: link_item_def)

section \<open>Properties of the rendered markup\<close>

text \<open>
  C5. App composes its child sections in a fixed order: whatever props it is called
  with, the component references in its output are Navbar, Hero, Cocktails, About, Art,
  Menu, Contact, in that sequence. They are the first seven children of the \<open>main\<close>
  element; the one child after them is a placeholder \<open>div\<close>, not a section.
\<close>

theorem App_sections_fixed_order:
  "components (App p) =
     [''Navbar'', ''Hero'', ''Cocktails'', ''About'', ''Art'', ''Menu'', ''Contact'']
   \<and> take 7 (children (App p)) = map Component (components (App p))
   \<and> length (children (App p)) = 8
   \<and> App p = App q"
  by (simp add: App_def components_def List.map_filter_def)

text \<open>
  C2. For every entry of the navigation list, in list order, the Navbar markup has
  exactly one list item, whose anchor has href \<open>#\<close> followed by the entry's id and whose
  text is the entry's title: the \<open>li\<close> elements of the markup are the entries mapped to
  such items, and they are the children of the one \<open>ul\<close>. The anchors of the markup are
  the logo link followed by one anchor per entry, so the list produces no other link.
\<close>

theorem Navbar_links_in_order:
  "elements_by_tag ''li'' (Navbar navLinks) =
     map (\<lambda>link. Element ''li'' [(''key'', S (id_link link))]
                   [Element ''a'' [(''href'', S (''#'' @ id_link link))] [Text (title link)]])
         navLinks
   \<and> elements_by_tag ''a'' (Navbar navLinks) =
       Element ''a'' [(''href'', S ''#home''), (''className'', S ''flex items-center gap-2'')]
         [Element ''img'' [(''src'', S ''/images/logo.png''), (''alt'', S ''logo'')] [],
          Element ''p'' [] [Text ''Velvet Pour'']]
       # map (\<lambda>link. Element ''a'' [(''href'', S (''#'' @ id_link link))] [Text (title link)])
             navLinks
   \<and> concat (map children (elements_by_tag ''ul'' (Navbar navLinks))) =
       elements_by_tag ''li'' (Navbar navLinks)"
  by (simp add: Navbar_def Navbar_render_def array_map_link_item elements_by_tag_def comp_def
        filter_li_items filter_a_items filter_ul_items)
     (simp add: link_item_def)

text \<open>
  C6. The hero title is present in the render output: for either value of the
  media-query flag the markup contains the element \<open>h1\<close> with class \<open>title\<close> and text
  \<open>MOJITO\<close>; it is the only \<open>h1\<close> and the only element the selector \<open>.title\<close> matches.
\<close>

theorem Hero_title_present:
  "Element ''h1'' [(''className'', S ''title'')] [Text ''MOJITO'']
     \<in> set (descendants (Hero_render isMobile))
   \<and> elements_by_tag ''h1'' (Hero_render isMobile) =
       [Element ''h1'' [(''className'', S ''title'')] [Text ''MOJITO'']]
   \<and> querySelectorAll ''.title'' (Hero_render isMobile) =
       [Element ''h1'' [(''className'', S ''title'')] [Text ''MOJITO'']]"
  by (simp add: Hero_render_def elements_by_tag_def querySelectorAll_def has_class_def)

text \<open>
  C7. The navigation list is consumed read-only. A render of Navbar leaves the list
  and every entry as they were, and it reads nothing of an entry but its id and its
  title: the markup is the markup of the entries cut down to these two fields.
\<close>

theorem Navbar_reads_only_id_and_title:
  "snd (Navbar_render navLinks) = navLinks
   \<and> Navbar navLinks =
       Navbar (map (\<lambda>link. \<lparr>id_link = id_link link, title = title link\<rparr>) navLinks)"
  by (simp add: Navbar_def Navbar_render_def array_map_link_item link_item_def comp_def)


section \<open>Properties of the Hero animation setup\<close>

text \<open>
  C1, as the code has it. Every run of the Hero setup creates exactly two timelines,
  both scroll-scrubbed. The first is triggered by \<open>#hero\<close> and carries the three
  parallax tweens, right leaf to \<open>y = 200\<close>, left leaf to \<open>y = -200\<close> and arrow to
  \<open>y = 100\<close>, each at position 0: the leaf and arrow parallax share a timeline. The
  second is triggered by \<open>video\<close>, pinned, and empty when the setup returns. With the
  ref attached the setup installs the metadata handler for this second timeline, and
  a run of that handler adds the one tween of the video element to \<open>currentTime\<close> =
  its duration there; with the ref unset nothing is installed and a run adds nothing.
  The selector \<open>.arrow\<close> matches no element of the Hero markup, since the arrow image is
  commented out there.
\<close>

theorem Hero_two_scrubbed_timelines:
  "drop (length (timelines w)) (timelines (snd (Hero_setup isMobile w))) =
     [\<lparr>tl_vars = [(''scrollTrigger'',
                    Obj [(''trigger'', Str ''#hero''), (''start'', Str ''top top''),
                         (''end'', Str ''bottom top''), (''scrub'', Bool True)])],
       tl_tweens =
         [\<lparr>tw_kind = To, tw_target = Selector ''.right-leaf'', tw_vars = [(''y'', Num 200)],
           tw_position = Some (Num 0)\<rparr>,
          \<lparr>tw_kind = To, tw_target = Selector ''.left-leaf'', tw_vars = [(''y'', Num (- 200))],
           tw_position = Some (Num 0)\<rparr>,
          \<lparr>tw_kind = To, tw_target = Selector ''.arrow'', tw_vars = [(''y'', Num 100)],
           tw_position = Some (Num 0)\<rparr>]\<rparr>,
      \<lparr>tl_vars = [(''scrollTrigger'',
                    Obj [(''trigger'', Str ''video''),
                         (''start'', Str (if isMobile then ''top 50%'' else ''center 60%'')),
                         (''end'', Str (if isMobile then ''120% top'' else ''bottom top'')),
                         (''scrub'', Bool True), (''pin'', Bool True)])],
       tl_tweens = []\<rparr>]
   \<and> take (length (timelines w)) (timelines (snd (Hero_setup isMobile w))) = timelines w
   \<and> map scroll_scrubbed (drop (length (timelines w)) (timelines (snd (Hero_setup isMobile w))))
       = [True, True]
   \<and> map trigger_of (drop (length (timelines w)) (timelines (snd (Hero_setup isMobile w))))
       = [Some (Str ''#hero''), Some (Str ''video'')]
   \<and> onloadedmetadata (video_el (snd (Hero_setup isMobile w))) =
       (if videoRef_set w then Some (AttachCurrentTime (Suc (length (timelines w))))
        else onloadedmetadata (video_el w))
   \<and> timelines (snd (run_handler (AttachCurrentTime (Suc (length (timelines w))))
                      (snd (Hero_setup isMobile w)))) =
       (if videoRef_set w
        then (timelines (snd (Hero_setup isMobile w)))
               [Suc (length (timelines w)) :=
                  (timelines (snd (Hero_setup isMobile w)) ! Suc (length (timelines w)))
                    \<lparr>tl_tweens := [currentTime_tween (duration (video_el w))]\<rparr>]
        else timelines (snd (Hero_setup isMobile w)))
   \<and> querySelectorAll ''.arrow'' (Hero_render isMobile) = []"
proof (intro conjI)
  show "querySelectorAll ''.arrow'' (Hero_render isMobile) = []"
    by (simp add: Hero_render_def querySelectorAll_def has_class_def)
  show "timelines (snd (run_handler (AttachCurrentTime (Suc (length (timelines w))))
                      (snd (Hero_setup isMobile w)))) =
       (if videoRef_set w
        then (timelines (snd (Hero_setup isMobile w)))
               [Suc (length (timelines w)) :=
                  (timelines (snd (Hero_setup isMobile w)) ! Suc (length (timelines w)))
                    \<lparr>tl_tweens := [currentTime_tween (duration (video_el w))]\<rparr>]
        else timelines (snd (Hero_setup isMobile w)))"
    by (simp add: Hero_setup_ref Hero_setup_video timeline_to_def timeline_add_timelines Let_def
          Hero_setup_timelines nth_append list_update_append currentTime_tween_def)
qed (simp_all add: Hero_setup_timelines Hero_setup_video scroll_scrubbed_def trigger_of_def)

text \<open>
  C1 as stated asks for three scroll-scrubbed timelines. On a freshly mounted document
  (desktop, a video ten seconds long) the setup leaves two.
\<close>

theorem Hero_three_timelines_counterexample:
  "length (filter scroll_scrubbed (timelines (snd (Hero_setup False (mounted_world 10))))) \<noteq> 3"
  by (simp add: Hero_setup_timelines mounted_world_def scroll_scrubbed_def)

text \<open>
  C3, as the code has it. Every run of the Hero setup makes exactly two \<open>SplitText\<close>
  calls, the selector \<open>.title\<close> split into chars and words and the selector \<open>.subtitle\<close>
  split into lines, and plays exactly two entrance tweens, \<open>gsap.from\<close> over the chars
  of the first split and \<open>gsap.from\<close> over the lines of the second. In the Hero markup
  \<open>.title\<close> matches one element and \<open>.subtitle\<close> matches two paragraphs, so three text
  blocks are split.
\<close>

theorem Hero_two_splits_two_entrance_tweens:
  "splits (snd (Hero_setup isMobile w)) = splits w @
     [\<lparr>st_target = ''.title'', st_vars = [(''type'', Str ''chars, words'')]\<rparr>,
      \<lparr>st_target = ''.subtitle'', st_vars = [(''type'', Str ''lines'')]\<rparr>]
   \<and> map (\<lambda>t. (tw_kind t, tw_target t)) (tweens (snd (Hero_setup isMobile w))) =
       map (\<lambda>t. (tw_kind t, tw_target t)) (tweens w) @
       [(From, Chars (length (splits w))), (From, Lines (Suc (length (splits w))))]
   \<and> length (querySelectorAll ''.title'' (Hero_render isMobile)) = 1
   \<and> length (querySelectorAll ''.subtitle'' (Hero_render isMobile)) = 2"
  by (simp add: Hero_setup_splits Hero_setup_tweens)
     (simp add: Hero_render_def querySelectorAll_def has_class_def)

text \<open>
  C3 as stated asks for exactly two text blocks to be split. On a freshly mounted
  document the two \<open>SplitText\<close> instances split three elements of the Hero markup.
\<close>

theorem Hero_split_blocks_counterexample:
  "length (split_elements (Hero_render False) (splits (snd (Hero_setup False (mounted_world 10)))))
   \<noteq> 2"
  by (simp add: Hero_setup_splits mounted_world_def split_elements_def querySelectorAll_def
        Hero_render_def has_class_def)

text \<open>
  C4. The one asynchronous step of the program is the \<open>onloadedmetadata\<close> handler.
  Mount the whole page, every component in the order of App, on a document with the ref
  attached and no callback registered. The mount does not throw. It registers no
  callback and leaves one handler, the one for the video timeline. That timeline has
  no tween when the mount is over. After any sequence of events the state is the state
  the mount left with one \<open>currentTime\<close> tween on the video timeline per
  \<open>loadedmetadata\<close> event of the sequence, so none before the first such event, and
  nothing else changed. Setup by setup, on any state: none registers a callback, only
  Hero assigns a handler, and neither Navbar nor Hero adds a tween that animates
  \<open>currentTime\<close> anywhere while it runs. The five sections after Hero are modelled
  from the spec.
\<close>

theorem currentTime_tween_only_after_metadata:
  assumes "videoRef_set w" and "callbacks w = []"
  shows "fst (mount_App isMobile calls_of w) = None
   \<and> callbacks (snd (mount_App isMobile calls_of w)) = []
   \<and> onloadedmetadata (video_el (snd (mount_App isMobile calls_of w))) =
       Some (AttachCurrentTime (Suc (Suc (length (timelines w)))))
   \<and> Suc (Suc (length (timelines w))) < length (timelines (snd (mount_App isMobile calls_of w)))
   \<and> tl_tweens (timelines (snd (mount_App isMobile calls_of w)) ! Suc (Suc (length (timelines w))))
       = []
   \<and> run_events es (snd (mount_App isMobile calls_of w)) =
       (snd (mount_App isMobile calls_of w))
         \<lparr>timelines := (timelines (snd (mount_App isMobile calls_of w)))
            [Suc (Suc (length (timelines w))) :=
               (timelines (snd (mount_App isMobile calls_of w)) ! Suc (Suc (length (timelines w))))
                 \<lparr>tl_tweens := replicate (count_list es LoadedMetadata)
                                 (currentTime_tween (duration (video_el w)))\<rparr>]\<rparr>
   \<and> callbacks (snd (Navbar_setup w')) = callbacks w'
   \<and> video_el (snd (Navbar_setup w')) = video_el w'
   \<and> callbacks (snd (Hero_setup isMobile w')) = callbacks w'
   \<and> callbacks (snd (section_setup calls w')) = callbacks w'
   \<and> video_el (snd (section_setup calls w')) = video_el w'
   \<and> filter drives_currentTime (all_tweens (snd (Navbar_setup w'))) =
       filter drives_currentTime (all_tweens w')
   \<and> filter drives_currentTime (all_tweens (snd (Hero_setup isMobile w'))) =
       filter drives_currentTime (all_tweens w')"
proof -
  let ?w1 = "snd (Navbar_setup w)"
  let ?w2 = "snd (Hero_setup isMobile ?w1)"
  let ?W = "snd (mount_App isMobile calls_of w)"
  let ?t = "Suc (Suc (length (timelines w)))"
  have W: "?W = fold (\<lambda>c w. snd (section_setup (calls_of c) w))
                  [''Cocktails'', ''About'', ''Art'', ''Menu'', ''Contact''] ?w2"
    by (rule mount_App_state)
  obtain ys where ts: "timelines ?W = timelines ?w2 @ ys"
    unfolding W using sections_timelines by blast
  have v: "video_el ?W = video_el ?w2" unfolding W by (rule sections_frame(1))
  have r: "videoRef_set ?W"
    unfolding W sections_frame using assms(1) by (simp add: Hero_setup_ref Navbar_setup_simps)
  have c: "callbacks ?W = []"
    unfolding W sections_frame using assms(2)
    by (simp add: Hero_setup_callbacks Navbar_setup_simps)
  have h: "onloadedmetadata (video_el ?W) = Some (AttachCurrentTime ?t)"
    using assms(1) by (simp add: v Hero_setup_video Navbar_setup_simps Navbar_setup_timelines)
  have l: "?t < length (timelines ?W)"
    by (simp add: ts Hero_setup_timelines Navbar_setup_timelines)
  have e: "tl_tweens (timelines ?W ! ?t) = []"
    by (simp add: ts Hero_setup_timelines Navbar_setup_timelines nth_append)
  have d: "duration (video_el ?W) = duration (video_el w)"
    by (simp add: v Hero_setup_video Navbar_setup_simps)
  have run: "run_events es ?W =
       ?W\<lparr>timelines := (timelines ?W)
            [?t := (timelines ?W ! ?t)
                 \<lparr>tl_tweens := replicate (count_list es LoadedMetadata)
                                 (currentTime_tween (duration (video_el w)))\<rparr>]\<rparr>"
    using run_events_installed [OF h r l c, of es] by (simp add: e d)
  show ?thesis
    using assms(1) c h l e run
    by (simp add: mount_App_outcome Navbar_setup_simps Hero_setup_callbacks section_setup_frame
          Navbar_setup_currentTime Hero_setup_currentTime)
qed

text \<open>
  On a fresh document with a video ten seconds long, mounted for a mobile viewport with
  one timeline in the Cocktails section: after a scroll event and then the metadata
  event, the video timeline holds the one tween to \<open>currentTime = 10\<close>.
\<close>

theorem currentTime_tween_only_after_metadata_witness:
  "videoRef_set (mounted_world 10) \<and> callbacks (mounted_world 10) = []
   \<and> tl_tweens
       (timelines
          (run_events [OtherEvent ''scroll'', LoadedMetadata]
             (snd (mount_App True
                     (\<lambda>c. if c = ''Cocktails'' then [GsapTimeline [] []] else [])
                     (mounted_world 10)))) ! 2)
     = [currentTime_tween 10]"
proof -
  let ?w = "mounted_world 10"
  let ?f = "\<lambda>c. if c = ''Cocktails'' then [GsapTimeline [] []] else []"
  let ?W = "snd (mount_App True ?f ?w)"
  have v: "videoRef_set ?w" by (simp add: mounted_world_def)
  have c: "callbacks ?w = []" by (simp add: mounted_world_def)
  have l: "length (timelines ?w) = 0" by (simp add: mounted_world_def)
  have d: "duration (video_el ?w) = 10" by (simp add: mounted_world_def)
  note t = currentTime_tween_only_after_metadata
             [OF v c, of True ?f "[OtherEvent ''scroll'', LoadedMetadata]"]
  have n: "Suc (Suc 0) < length (timelines ?W)" using t unfolding l by blast
  have r: "run_events [OtherEvent ''scroll'', LoadedMetadata] ?W =
             ?W\<lparr>timelines := (timelines ?W)
                [Suc (Suc 0) := (timelines ?W ! Suc (Suc 0))
                                  \<lparr>tl_tweens := [currentTime_tween 10]\<rparr>]\<rparr>"
    using t unfolding l d by (simp del: run_events.simps)
  have "tl_tweens (timelines (run_events [OtherEvent ''scroll'', LoadedMetadata] ?W) ! 2) =
          [currentTime_tween 10]"
    unfolding r using n by (simp add: numeral_2_eq_2)
  with v c show ?thesis by blast
qed

text \<open>
  C9. The Hero setup dereferences \<open>videoRef.current\<close> without a check. It returns
  normally exactly when the ref is attached when it runs; with the ref unset it throws
  a TypeError and installs no handler. After a normal return the handler is installed;
  it dereferences the ref again to read \<open>duration\<close>, which succeeds while the ref is
  attached and throws once the ref is unset.
\<close>

theorem Hero_setup_throws_iff_ref_unset:
  "fst (Hero_setup isMobile w) = (if videoRef_set w then None else Some TypeError)
   \<and> onloadedmetadata (video_el (snd (Hero_setup isMobile w))) =
       (if videoRef_set w then Some (AttachCurrentTime (Suc (length (timelines w))))
        else onloadedmetadata (video_el w))
   \<and> fst (dispatch LoadedMetadata (snd (Hero_setup isMobile (w\<lparr>videoRef_set := True\<rparr>)))) = None
   \<and> fst (dispatch LoadedMetadata
             ((snd (Hero_setup isMobile (w\<lparr>videoRef_set := True\<rparr>)))\<lparr>videoRef_set := False\<rparr>))
       = Some TypeError"
  by (simp add: Hero_setup_outcome Hero_setup_video Hero_setup_ref run_callbacks_error
        run_callbacks_ok lib_simps)

text \<open>
  C10. The media-query flag does not reach the markup: the render for a mobile and for
  a desktop viewport is the same tree. In the setup it decides nothing but the
  \<open>start\<close> and \<open>end\<close> of the video timeline's scroll trigger: the outcome is the same,
  and the state the mobile run leaves is the state the desktop run leaves with those
  two values overwritten by \<open>top 50%\<close> and \<open>120% top\<close>. The two states do differ.
\<close>

theorem isMobile_affects_only_video_range:
  "Hero_render True = Hero_render False
   \<and> fst (Hero_setup True w) = fst (Hero_setup False w)
   \<and> snd (Hero_setup True w) =
       (snd (Hero_setup False w))
         \<lparr>timelines := (timelines (snd (Hero_setup False w)))
            [Suc (length (timelines w)) :=
               set_range ''top 50%'' ''120% top''
                 (timelines (snd (Hero_setup False w)) ! Suc (length (timelines w)))]\<rparr>
   \<and> snd (Hero_setup True w) \<noteq> snd (Hero_setup False w)"
proof (intro conjI)
  show "Hero_render True = Hero_render False" by (simp add: Hero_render_def)
  show "fst (Hero_setup True w) = fst (Hero_setup False w)" by (simp add: Hero_setup_outcome)
  show "snd (Hero_setup True w) =
       (snd (Hero_setup False w))
         \<lparr>timelines := (timelines (snd (Hero_setup False w)))
            [Suc (length (timelines w)) :=
               set_range ''top 50%'' ''120% top''
                 (timelines (snd (Hero_setup False w)) ! Suc (length (timelines w)))]\<rparr>"
    by (rule world.equality)
       (simp_all add: Hero_setup_splits Hero_setup_class_adds Hero_setup_tweens Hero_setup_video
          Hero_setup_ref Hero_setup_callbacks Hero_setup_timelines nth_append list_update_append
          set_range_def)
  have "timelines (snd (Hero_setup True w)) \<noteq> timelines (snd (Hero_setup False w))"
    by (simp add: Hero_setup_timelines)
  then show "snd (Hero_setup True w) \<noteq> snd (Hero_setup False w)" by auto
qed

end
